theory Spec2Isabelle
  imports Complex_Main "HOL-Library.AList"
begin

section \<open>The IPL prediction dashboard (app.py)\<close>

text \<open>
  app.py is a Flask application of four handlers over two readers and a chart renderer.
  Everything it computes goes through pandas, joblib, matplotlib, seaborn and Flask. The
  embedding keeps the program's own control flow (the three \<open>try\<close>/\<open>except Exception\<close>
  blocks, the order of the calls, the literal fallback values, the pairing of the feature
  names with the loaded vector, the first-four slice) and takes what the libraries do with
  a file's content or with a table as parameters, collected in the record \<open>lib\<close>.
\<close>

subsection \<open>Python values, exceptions, the environment\<close>

text \<open>
  The values that reach a table cell, a template argument or a JSON response. A Python
  \<open>float\<close> is modelled by the real number it denotes; the program does no arithmetic on
  floats, it only passes them on; \<open>PyNaN\<close> is the float \<open>nan\<close>, which pandas puts in a
  cell it reads as missing. A \<open>dict\<close> is an association list in insertion order.
\<close>

datatype pyval =
    PyNone
  | PyBool bool
  | PyInt int
  | PyFloat real
  | PyNaN
  | PyStr string
  | PyList "pyval list"
  | PyDict "(string \<times> pyval) list"

text \<open>
  \<open>exn\<close> stands for the instances of Python's \<open>Exception\<close>, which is what the three
  handlers of app.py catch. \<open>KeyboardInterrupt\<close> and \<open>SystemExit\<close> are not failures of
  a call and are outside the model.
\<close>

datatype exn =
    FileNotFoundError string
  | FileExistsError string
  | IsADirectoryError string
  | ValueError string
  | KeyError string
  | AttributeError string
  | TypeError string
  | Exception string

fun exn_str :: "exn \<Rightarrow> string" where
  "exn_str (FileNotFoundError m) = m"
| "exn_str (FileExistsError m) = m"
| "exn_str (IsADirectoryError m) = m"
| "exn_str (ValueError m) = m"
| "exn_str (KeyError m) = m"
| "exn_str (AttributeError m) = m"
| "exn_str (TypeError m) = m"
| "exn_str (Exception m) = m"

text \<open>
  The environment of a request: the regular files with their content, the directories,
  the paths the operating system refuses to write (permissions, a full disk), and what
  has been printed.
\<close>

record world =
  files :: "string \<Rightarrow> string option"
  dirs :: "string set"
  write_denied :: "string \<Rightarrow> exn option"
  stdout :: "string list"

text \<open>A pandas DataFrame: the column labels and the rows, in order.\<close>

record dataframe =
  columns :: "string list"
  rows :: "pyval list list"

text \<open>
  What the libraries compute and app.py cannot see into. Each may raise.
  \<^item> \<open>parse_csv\<close>: pandas' CSV parser, on the content of the file;
  \<^item> \<open>unpickle\<close>: joblib's loader, on the content of the artifact;
  \<^item> \<open>feature_importances\<close>: reading the attribute \<open>feature_importances_\<close> of the
    loaded object as a sequence (AttributeError when absent, TypeError when not iterable);
  \<^item> \<open>float_py\<close>: Python's \<open>float()\<close> on an element of that sequence;
  \<^item> \<open>draw_points\<close>: \<open>plt.figure\<close>, \<open>sns.barplot(x='Team', y='points', data=..., palette=...)\<close>,
    title, ticks, layout and the encoding of the figure by \<open>savefig\<close>: the image bytes;
  \<^item> \<open>draw_importance\<close>: the same for \<open>sns.barplot(x=values, y=features)\<close>;
  \<^item> \<open>render_template\<close>: Flask's template rendering, on the template name and the
    keyword arguments.
\<close>

record ('m, 'a) lib =
  parse_csv :: "string \<Rightarrow> exn + dataframe"
  unpickle :: "string \<Rightarrow> exn + 'm"
  feature_importances :: "'m \<Rightarrow> exn + 'a list"
  float_py :: "'a \<Rightarrow> exn + real"
  draw_points :: "dataframe \<Rightarrow> string list \<Rightarrow> exn + string"
  draw_importance :: "pyval list \<Rightarrow> string list \<Rightarrow> exn + string"
  render_template :: "string \<Rightarrow> (string \<times> pyval) list \<Rightarrow> exn + string"

subsection \<open>Statements that may raise and that change the environment\<close>

type_synonym 'a io = "world \<Rightarrow> (exn + 'a) \<times> world"

definition io_return :: "'a \<Rightarrow> 'a io" where
  "io_return x = (\<lambda>w. (Inr x, w))"

definition io_raise :: "exn \<Rightarrow> 'a io" where
  "io_raise e = (\<lambda>w. (Inl e, w))"

text \<open>A call whose outcome does not touch the environment.\<close>

definition io_of :: "exn + 'a \<Rightarrow> 'a io" where
  "io_of r = (\<lambda>w. (r, w))"

text \<open>Sequencing: an exception of the first statement skips the second.\<close>

definition io_bind :: "'a io \<Rightarrow> ('a \<Rightarrow> 'b io) \<Rightarrow> 'b io" where
  "io_bind m f = (\<lambda>w. case m w of (Inl e, w1) \<Rightarrow> (Inl e, w1) | (Inr x, w1) \<Rightarrow> f x w1)"

text \<open>
  \<open>try: m except Exception as e: h e\<close>. The handler runs in the environment the body
  left behind, and may raise itself.
\<close>

definition try_except :: "'a io \<Rightarrow> (exn \<Rightarrow> 'a io) \<Rightarrow> 'a io" where
  "try_except m h = (\<lambda>w. case m w of (Inl e, w1) \<Rightarrow> h e w1 | (Inr x, w1) \<Rightarrow> (Inr x, w1))"

definition print_py :: "string \<Rightarrow> unit io" where
  "print_py s = (\<lambda>w. (Inr (), w\<lparr>stdout := stdout w @ [s]\<rparr>))"

subsection \<open>Dictionaries and tables\<close>

text \<open>
  Building a dict from its items, in order: a key that comes again keeps its place and
  takes the new value.
\<close>

definition dict_of_items :: "(string \<times> 'v) list \<Rightarrow> (string \<times> 'v) list" where
  "dict_of_items kvs = foldl (\<lambda>d kv. AList.update (fst kv) (snd kv) d) [] kvs"

definition getitem :: "(string \<times> 'v) list \<Rightarrow> string \<Rightarrow> exn + 'v" where
  "getitem d k = (case map_of d k of None \<Rightarrow> Inl (KeyError k) | Some v \<Rightarrow> Inr v)"

text \<open>\<open>d.keys()\<close> and \<open>d.values()\<close>, which only a dict has.\<close>

fun dict_keys :: "pyval \<Rightarrow> exn + string list" where
  "dict_keys (PyDict d) = Inr (map fst d)"
| "dict_keys _ = Inl (AttributeError ''keys'')"

fun dict_values :: "pyval \<Rightarrow> exn + pyval list" where
  "dict_values (PyDict d) = Inr (map snd d)"
| "dict_values _ = Inl (AttributeError ''values'')"

text \<open>
  \<open>pd.DataFrame(d)\<close> for a dict of equally long columns; pandas raises ValueError when
  the lengths differ.
\<close>

definition DataFrame :: "(string \<times> pyval list) list \<Rightarrow> exn + dataframe" where
  "DataFrame d =
     (let n = (case d of [] \<Rightarrow> 0 | c # _ \<Rightarrow> length (snd c))
      in if list_all (\<lambda>c. length (snd c) = n) d
         then Inr \<lparr>columns = map fst d,
                   rows = map (\<lambda>i. map (\<lambda>c. snd c ! i) d) [0..<n]\<rparr>
         else Inl (ValueError ''All arrays must be of the same length''))"

text \<open>\<open>df.iloc[:n]\<close>: the first \<open>n\<close> rows.\<close>

definition iloc_upto :: "nat \<Rightarrow> dataframe \<Rightarrow> dataframe" where
  "iloc_upto n df = df\<lparr>rows := take n (rows df)\<rparr>"

text \<open>\<open>df.to_dict('records')\<close>: one dict per row, from column label to cell.\<close>

definition to_dict_records :: "dataframe \<Rightarrow> pyval" where
  "to_dict_records df = PyList (map (\<lambda>r. PyDict (dict_of_items (zip (columns df) r))) (rows df))"

subsection \<open>Files\<close>

definition path_exists :: "string \<Rightarrow> world \<Rightarrow> bool" where
  "path_exists p w = (p \<in> dirs w \<or> files w p \<noteq> None)"

text \<open>\<open>os.makedirs(p)\<close> for a path of one component.\<close>

definition makedirs :: "string \<Rightarrow> unit io" where
  "makedirs p = (\<lambda>w.
     if path_exists p w then (Inl (FileExistsError p), w)
     else case write_denied w p of
            Some e \<Rightarrow> (Inl e, w)
          | None \<Rightarrow> (Inr (), w\<lparr>dirs := insert p (dirs w)\<rparr>))"

text \<open>The text before the last slash.\<close>

definition dirname :: "string \<Rightarrow> string" where
  "dirname p = rev (drop 1 (dropWhile (\<lambda>c. c \<noteq> CHR ''/'') (rev p)))"

text \<open>Writing a file: the directory must be there, the path must not be a directory.\<close>

definition write_file :: "string \<Rightarrow> string \<Rightarrow> unit io" where
  "write_file p bytes = (\<lambda>w.
     if dirname p \<notin> dirs w then (Inl (FileNotFoundError p), w)
     else if p \<in> dirs w then (Inl (IsADirectoryError p), w)
     else case write_denied w p of
            Some e \<Rightarrow> (Inl e, w)
          | None \<Rightarrow> (Inr (), w\<lparr>files := (files w)(p \<mapsto> bytes)\<rparr>))"

text \<open>\<open>pd.read_csv(p)\<close>: a missing file raises, a present one is parsed.\<close>

definition pd_read_csv :: "('m, 'a) lib \<Rightarrow> string \<Rightarrow> dataframe io" where
  "pd_read_csv L p = (\<lambda>w.
     case files w p of
       None \<Rightarrow> (Inl (FileNotFoundError p), w)
     | Some c \<Rightarrow> (parse_csv L c, w))"

definition joblib_load :: "('m, 'a) lib \<Rightarrow> string \<Rightarrow> 'm io" where
  "joblib_load L p = (\<lambda>w.
     case files w p of
       None \<Rightarrow> (Inl (FileNotFoundError p), w)
     | Some c \<Rightarrow> (unpickle L c, w))"

subsection \<open>The readers\<close>

definition load_predictions :: "('m, 'a) lib \<Rightarrow> dataframe io" where
  "load_predictions L =
     try_except
       (pd_read_csv L ''data/predicted_ipl_2025_rankings.csv'')
       (\<lambda>e. io_bind (print_py (''Error loading predictions: '' @ exn_str e)) (\<lambda>_.
          io_of (DataFrame (dict_of_items
            [(''Team'', [PyStr ''Gujarat Titans'', PyStr ''Royal Challengers Bangalore'',
                         PyStr ''Punjab Kings'', PyStr ''Mumbai Indians'',
                         PyStr ''Kolkata Knight Riders'', PyStr ''Rajasthan Royals'',
                         PyStr ''Lucknow Super Giants'', PyStr ''Delhi Capitals'',
                         PyStr ''Chennai Super Kings'', PyStr ''Sunrisers Hyderabad'']),
             (''Result'', [PyStr ''Winner'', PyStr ''Runner-up'', PyStr ''Second Runner-up'',
                           PyStr ''Eliminator'', PyStr ''Other'', PyStr ''Other'',
                           PyStr ''Other'', PyStr ''Other'', PyStr ''Other'', PyStr ''Other'']),
             (''points'', [PyInt 10, PyInt 8, PyInt 8, PyInt 6, PyInt 6,
                           PyInt 2, PyInt 2, PyInt 2, PyInt 0, PyInt 0])]))))"

text \<open>
  The dict comprehension \<open>{feature: float(importance) for feature, importance in pairs}\<close>:
  the pairs in order, the first \<open>float()\<close> that raises ends it.
\<close>

fun dict_comp :: "('a \<Rightarrow> exn + real) \<Rightarrow> (string \<times> 'a) list \<Rightarrow> (string \<times> pyval) list
    \<Rightarrow> exn + (string \<times> pyval) list" where
  "dict_comp f [] acc = Inr acc"
| "dict_comp f (p # ps) acc =
     (case f (snd p) of
        Inl e \<Rightarrow> Inl e
      | Inr y \<Rightarrow> dict_comp f ps (AList.update (fst p) (PyFloat y) acc))"

definition features :: "string list" where
  "features = [''batting_strength'', ''bowling_strength'', ''consistency'',
               ''historical_win_rate'', ''head_to_head_win_rate'', ''venue_win_rate'']"

text \<open>The body of the \<open>try\<close> block of \<open>load_model_metrics\<close>.\<close>

definition load_model_metrics_try :: "('m, 'a) lib \<Rightarrow> (string \<times> pyval) list io" where
  "load_model_metrics_try L =
     io_bind (joblib_load L ''model/best_model.pkl'') (\<lambda>best_model.
     io_bind (io_of (feature_importances L best_model)) (\<lambda>feature_importances.
     io_bind (io_of (dict_comp (float_py L) (zip features feature_importances) [])) (\<lambda>importance_dict.
     io_return (dict_of_items
       [(''best_model'', PyStr ''XGBoost''),
        (''accuracy'', PyFloat 97.60),
        (''feature_importance'', PyDict importance_dict)]))))"

definition load_model_metrics :: "('m, 'a) lib \<Rightarrow> (string \<times> pyval) list io" where
  "load_model_metrics L =
     try_except (load_model_metrics_try L)
       (\<lambda>e. io_bind (print_py (''Error loading model metrics: '' @ exn_str e)) (\<lambda>_.
          io_return (dict_of_items
            [(''best_model'', PyStr ''XGBoost''),
             (''accuracy'', PyFloat 97.60),
             (''feature_importance'', PyDict (dict_of_items
                [(''batting_strength'', PyFloat 0.35),
                 (''bowling_strength'', PyFloat 0.25),
                 (''consistency'', PyFloat 0.15),
                 (''historical_win_rate'', PyFloat 0.10),
                 (''head_to_head_win_rate'', PyFloat 0.10),
                 (''venue_win_rate'', PyFloat 0.05)]))])))"

subsection \<open>The chart renderer\<close>

definition palette :: "string list" where
  "palette = [''gold'', ''silver'', ''#cd7f32'', ''purple''] @ replicate 6 ''#1f77b4''"

text \<open>The body of the \<open>try\<close> block of \<open>generate_visualizations\<close>.\<close>

definition generate_visualizations_try :: "('m, 'a) lib \<Rightarrow> unit io" where
  "generate_visualizations_try L =
     io_bind (\<lambda>w. if \<not> path_exists ''static'' w then makedirs ''static'' w else (Inr (), w)) (\<lambda>_.
     io_bind (load_predictions L) (\<lambda>predictions.
     io_bind (io_of (draw_points L predictions palette)) (\<lambda>png.
     io_bind (write_file ''static/team_points.png'' png) (\<lambda>_.
     io_bind (load_model_metrics L) (\<lambda>metrics.
     io_bind (io_of (getitem metrics ''feature_importance'')) (\<lambda>importance.
     io_bind (io_of (dict_keys importance)) (\<lambda>features.
     io_bind (io_of (dict_values importance)) (\<lambda>values.
     io_bind (io_of (draw_importance L values features)) (\<lambda>png2.
     write_file ''static/feature_importance.png'' png2)))))))))"

definition generate_visualizations :: "('m, 'a) lib \<Rightarrow> unit io" where
  "generate_visualizations L =
     try_except (generate_visualizations_try L)
       (\<lambda>e. print_py (''Error generating visualizations: '' @ exn_str e))"

subsection \<open>The handlers\<close>

datatype response = Json pyval | Html string

text \<open>Flask's \<open>jsonify\<close>: every value of \<open>pyval\<close> is serialisable.\<close>

definition jsonify :: "pyval \<Rightarrow> exn + response" where
  "jsonify v = Inr (Json v)"

text \<open>
  The dashboard handler up to its last line: the keyword arguments it hands to
  \<open>render_template('index.html', ...)\<close>.
\<close>

definition index_args :: "('m, 'a) lib \<Rightarrow> (string \<times> pyval) list io" where
  "index_args L =
     io_bind (generate_visualizations L) (\<lambda>_.
     io_bind (load_predictions L) (\<lambda>predictions.
     io_bind (load_model_metrics L) (\<lambda>metrics.
     let top_teams = iloc_upto 4 predictions in
     io_bind (io_of (getitem metrics ''best_model'')) (\<lambda>name.
     io_bind (io_of (getitem metrics ''accuracy'')) (\<lambda>accuracy.
     let model_metrics = dict_of_items [(''name'', name), (''accuracy'', accuracy)] in
     io_bind (io_of (getitem metrics ''feature_importance'')) (\<lambda>feature_importance.
     io_return (dict_of_items
       [(''predictions'', to_dict_records predictions),
        (''top_teams'', to_dict_records top_teams),
        (''model_metrics'', PyDict model_metrics),
        (''feature_importance'', feature_importance)])))))))"

definition index :: "('m, 'a) lib \<Rightarrow> response io" where
  "index L =
     io_bind (index_args L) (\<lambda>args.
     io_bind (io_of (render_template L ''index.html'' args)) (\<lambda>page.
     io_return (Html page)))"

definition api_predictions :: "('m, 'a) lib \<Rightarrow> response io" where
  "api_predictions L =
     io_bind (load_predictions L) (\<lambda>predictions.
     io_of (jsonify (to_dict_records predictions)))"

definition api_metrics :: "('m, 'a) lib \<Rightarrow> response io" where
  "api_metrics L =
     io_bind (load_model_metrics L) (\<lambda>metrics. io_of (jsonify (PyDict metrics)))"


subsection \<open>What the renderer may touch\<close>

text \<open>
  The relation between the environment before and after a statement that writes at most
  the two chart files and creates at most the directory \<open>static\<close>: every other file is
  as it was, no file disappears, and the write permissions are as they were.
\<close>

definition chart_frame :: "world \<Rightarrow> world \<Rightarrow> bool" where
  "chart_frame w w' =
     ((\<forall>p. p \<noteq> ''static/team_points.png'' \<and> p \<noteq> ''static/feature_importance.png''
           \<longrightarrow> files w' p = files w p) \<and>
      (\<forall>p. files w p \<noteq> None \<longrightarrow> files w' p \<noteq> None) \<and>
      write_denied w' = write_denied w \<and>
      dirs w \<subseteq> dirs w' \<and> dirs w' \<subseteq> insert ''static'' (dirs w))"

subsection \<open>Concrete environments\<close>

text \<open>
  One instance of the libraries, for running the program on concrete inputs. Its parser
  knows three files: a ranking table of two rows, a table with other columns, and a
  ranking table whose one team is spelled \<open>NA\<close>, which \<open>pd.read_csv\<close> with its default
  missing-value markers reads as \<open>nan\<close>. Its
  unpickler knows one artifact, a vector of six importances. Like seaborn, its
  \<open>draw_points\<close> raises ValueError on a table without the columns \<open>Team\<close> and \<open>points\<close>.
\<close>

definition example_lib :: "(real list, real) lib" where
  "example_lib = \<lparr>
     parse_csv = (\<lambda>c.
       if c = ''Team,Result,points\<newline>Mumbai Indians,Winner,10\<newline>Delhi Capitals,Runner-up,8\<newline>''
       then Inr \<lparr>columns = [''Team'', ''Result'', ''points''],
                 rows = [[PyStr ''Mumbai Indians'', PyStr ''Winner'', PyInt 10],
                         [PyStr ''Delhi Capitals'', PyStr ''Runner-up'', PyInt 8]]\<rparr>
       else if c = ''a,b\<newline>1,2\<newline>''
       then Inr \<lparr>columns = [''a'', ''b''], rows = [[PyInt 1, PyInt 2]]\<rparr>
       else if c = ''Team,Result,points\<newline>NA,Winner,10\<newline>''
       then Inr \<lparr>columns = [''Team'', ''Result'', ''points''],
                 rows = [[PyNaN, PyStr ''Winner'', PyInt 10]]\<rparr>
       else Inl (ValueError ''No columns to parse from file'')),
     unpickle = (\<lambda>c.
       if c = ''model'' then Inr [0.4, 0.3, 0.1, 0.1, 0.05, 0.05]
       else if c = ''model of two'' then Inr [0.7, 0.3]
       else Inl (Exception ''invalid load key'')),
     feature_importances = (\<lambda>m. Inr m),
     float_py = (\<lambda>x. Inr x),
     draw_points = (\<lambda>df pal.
       if ''Team'' \<in> set (columns df) \<and> ''points'' \<in> set (columns df)
       then Inr ''points chart''
       else Inl (ValueError ''Could not interpret value Team for x'')),
     draw_importance = (\<lambda>vs fs. Inr ''importance chart''),
     render_template = (\<lambda>name args. Inr name)\<rparr>"

text \<open>No file at all: both readers fall back.\<close>

definition world_empty :: world where
  "world_empty = \<lparr>files = (\<lambda>p. None), dirs = {}, write_denied = (\<lambda>p. None), stdout = []\<rparr>"

text \<open>A ranking table and a model artifact, both readable.\<close>

definition world_good :: world where
  "world_good = \<lparr>
     files = [''data/predicted_ipl_2025_rankings.csv'' \<mapsto>
                ''Team,Result,points\<newline>Mumbai Indians,Winner,10\<newline>Delhi Capitals,Runner-up,8\<newline>'',
              ''model/best_model.pkl'' \<mapsto> ''model''],
     dirs = {''data'', ''model''}, write_denied = (\<lambda>p. None), stdout = []\<rparr>"

text \<open>A model artifact whose importance vector has two elements only.\<close>

definition world_short_model :: world where
  "world_short_model = \<lparr>
     files = [''model/best_model.pkl'' \<mapsto> ''model of two''],
     dirs = {''model''}, write_denied = (\<lambda>p. None), stdout = []\<rparr>"

text \<open>The ranking file is a readable CSV table, but not of the columns the chart needs.\<close>

definition world_other_table :: world where
  "world_other_table = \<lparr>
     files = [''data/predicted_ipl_2025_rankings.csv'' \<mapsto> ''a,b\<newline>1,2\<newline>''],
     dirs = {''data''}, write_denied = (\<lambda>p. None), stdout = []\<rparr>"

text \<open>The same, with both charts left by an earlier request.\<close>

definition world_stale_charts :: world where
  "world_stale_charts = \<lparr>
     files = [''data/predicted_ipl_2025_rankings.csv'' \<mapsto> ''a,b\<newline>1,2\<newline>'',
              ''static/team_points.png'' \<mapsto> ''old points chart'',
              ''static/feature_importance.png'' \<mapsto> ''old importance chart''],
     dirs = {''data'', ''static''}, write_denied = (\<lambda>p. None), stdout = []\<rparr>"



section \<open>Properties\<close>

subsection \<open>Sequencing, dictionaries\<close>

lemmas io_defs = io_return_def io_raise_def io_of_def io_bind_def try_except_def print_py_def

lemma update_fresh: "k \<notin> fst ` set al \<Longrightarrow> AList.update k v al = al @ [(k, v)]"
  by (induction al) auto

lemma dict_of_items_aux:
  "distinct (map fst (acc @ kvs)) \<Longrightarrow>
   foldl (\<lambda>d kv. AList.update (fst kv) (snd kv) d) acc kvs = acc @ kvs"
proof (induction kvs arbitrary: acc)
  case Nil thus ?case by simp
next
  case (Cons kv kvs)
  have "fst kv \<notin> fst ` set acc" using Cons.prems by auto
  hence "AList.update (fst kv) (snd kv) acc = acc @ [kv]" by (simp add: update_fresh)
  thus ?case using Cons.IH[of "acc @ [kv]"] Cons.prems by simp
qed

lemma dict_of_items_distinct: "distinct (map fst kvs) \<Longrightarrow> dict_of_items kvs = kvs"
  unfolding dict_of_items_def using dict_of_items_aux[of "[]" kvs] by simp

lemma fallback_DataFrame:
  "DataFrame (dict_of_items
            [(''Team'', [PyStr ''Gujarat Titans'', PyStr ''Royal Challengers Bangalore'',
                         PyStr ''Punjab Kings'', PyStr ''Mumbai Indians'',
                         PyStr ''Kolkata Knight Riders'', PyStr ''Rajasthan Royals'',
                         PyStr ''Lucknow Super Giants'', PyStr ''Delhi Capitals'',
                         PyStr ''Chennai Super Kings'', PyStr ''Sunrisers Hyderabad'']),
             (''Result'', [PyStr ''Winner'', PyStr ''Runner-up'', PyStr ''Second Runner-up'',
                           PyStr ''Eliminator'', PyStr ''Other'', PyStr ''Other'',
                           PyStr ''Other'', PyStr ''Other'', PyStr ''Other'', PyStr ''Other'']),
             (''points'', [PyInt 10, PyInt 8, PyInt 8, PyInt 6, PyInt 6,
                           PyInt 2, PyInt 2, PyInt 2, PyInt 0, PyInt 0])]) =
   Inr \<lparr>columns = [''Team'', ''Result'', ''points''],
        rows = [[PyStr ''Gujarat Titans'', PyStr ''Winner'', PyInt 10],
                [PyStr ''Royal Challengers Bangalore'', PyStr ''Runner-up'', PyInt 8],
                [PyStr ''Punjab Kings'', PyStr ''Second Runner-up'', PyInt 8],
                [PyStr ''Mumbai Indians'', PyStr ''Eliminator'', PyInt 6],
                [PyStr ''Kolkata Knight Riders'', PyStr ''Other'', PyInt 6],
                [PyStr ''Rajasthan Royals'', PyStr ''Other'', PyInt 2],
                [PyStr ''Lucknow Super Giants'', PyStr ''Other'', PyInt 2],
                [PyStr ''Delhi Capitals'', PyStr ''Other'', PyInt 2],
                [PyStr ''Chennai Super Kings'', PyStr ''Other'', PyInt 0],
                [PyStr ''Sunrisers Hyderabad'', PyStr ''Other'', PyInt 0]]\<rparr>"
  by (simp add: dict_of_items_distinct DataFrame_def upt_rec[of _ "numeral _"] upt_rec[of 0])

lemma load_predictions_ok:
  "fst (pd_read_csv L ''data/predicted_ipl_2025_rankings.csv'' w) = Inr df \<Longrightarrow>
   load_predictions L w = (Inr df, w)"
  by (auto simp: load_predictions_def pd_read_csv_def try_except_def split: option.splits)

lemma load_predictions_except:
  "fst (pd_read_csv L ''data/predicted_ipl_2025_rankings.csv'' w) = Inl e \<Longrightarrow>
   load_predictions L w =
     (Inr \<lparr>columns = [''Team'', ''Result'', ''points''],
        rows = [[PyStr ''Gujarat Titans'', PyStr ''Winner'', PyInt 10],
                [PyStr ''Royal Challengers Bangalore'', PyStr ''Runner-up'', PyInt 8],
                [PyStr ''Punjab Kings'', PyStr ''Second Runner-up'', PyInt 8],
                [PyStr ''Mumbai Indians'', PyStr ''Eliminator'', PyInt 6],
                [PyStr ''Kolkata Knight Riders'', PyStr ''Other'', PyInt 6],
                [PyStr ''Rajasthan Royals'', PyStr ''Other'', PyInt 2],
                [PyStr ''Lucknow Super Giants'', PyStr ''Other'', PyInt 2],
                [PyStr ''Delhi Capitals'', PyStr ''Other'', PyInt 2],
                [PyStr ''Chennai Super Kings'', PyStr ''Other'', PyInt 0],
                [PyStr ''Sunrisers Hyderabad'', PyStr ''Other'', PyInt 0]]\<rparr>,
      w\<lparr>stdout := stdout w @ [''Error loading predictions: '' @ exn_str e]\<rparr>)"
  unfolding load_predictions_def fallback_DataFrame
  by (auto simp: pd_read_csv_def io_defs split: option.splits)

lemma pd_read_csv_world: "snd (pd_read_csv L p w) = w"
  by (simp add: pd_read_csv_def split: option.splits)

lemma pd_read_csv_missing: "files w p = None \<Longrightarrow> fst (pd_read_csv L p w) = Inl (FileNotFoundError p)"
  by (simp add: pd_read_csv_def)

subsection \<open>The metrics reader\<close>

lemma load_predictions_shape:
  "\<exists>df out. load_predictions L w = (Inr df, w\<lparr>stdout := out\<rparr>)"
proof (cases "fst (pd_read_csv L ''data/predicted_ipl_2025_rankings.csv'' w)")
  case (Inl e)
  from load_predictions_except[OF this] show ?thesis by blast
next
  case (Inr df)
  from load_predictions_ok[OF this] have "load_predictions L w = (Inr df, w\<lparr>stdout := stdout w\<rparr>)"
    by simp
  thus ?thesis by blast
qed

lemma load_predictions_fst_cong:
  assumes "files w' ''data/predicted_ipl_2025_rankings.csv'' = files w ''data/predicted_ipl_2025_rankings.csv''"
  shows "fst (load_predictions L w') = fst (load_predictions L w)"
  using assms
  by (auto simp: load_predictions_def pd_read_csv_def io_defs split: option.splits sum.splits)

lemma dict_comp_keys:
  "dict_comp f ps acc = Inr d \<Longrightarrow> distinct (map fst acc) \<Longrightarrow> distinct (map fst d)"
  by (induction f ps acc rule: dict_comp.induct) (auto split: sum.splits simp: distinct_update)

lemma load_model_metrics_shape:
  "\<exists>imp out. load_model_metrics L w =
     (Inr [(''best_model'', PyStr ''XGBoost''), (''accuracy'', PyFloat 97.6),
           (''feature_importance'', PyDict imp)], w\<lparr>stdout := out\<rparr>)"
proof (cases "load_model_metrics_try L w")
  case (Pair r w1)
  have w1: "w1 = w"
    using Pair
    by (auto simp: load_model_metrics_try_def joblib_load_def io_defs split: option.splits sum.splits)
  show ?thesis
  proof (cases r)
    case (Inl e)
    have "load_model_metrics L w =
       (Inr [(''best_model'', PyStr ''XGBoost''), (''accuracy'', PyFloat 97.6),
           (''feature_importance'', PyDict (dict_of_items
                [(''batting_strength'', PyFloat 0.35),
                 (''bowling_strength'', PyFloat 0.25),
                 (''consistency'', PyFloat 0.15),
                 (''historical_win_rate'', PyFloat 0.10),
                 (''head_to_head_win_rate'', PyFloat 0.10),
                 (''venue_win_rate'', PyFloat 0.05)]))],
        w\<lparr>stdout := stdout w @ [''Error loading model metrics: '' @ exn_str e]\<rparr>)"
      using Pair Inl w1 by (simp add: load_model_metrics_def io_defs dict_of_items_distinct)
    thus ?thesis by blast
  next
    case (Inr m)
    then obtain imp where "m = [(''best_model'', PyStr ''XGBoost''), (''accuracy'', PyFloat 97.6),
           (''feature_importance'', PyDict imp)]"
      using Pair
      by (auto simp: load_model_metrics_try_def joblib_load_def io_defs dict_of_items_distinct
               split: option.splits sum.splits)
    hence "load_model_metrics L w = (Inr [(''best_model'', PyStr ''XGBoost''), (''accuracy'', PyFloat 97.6),
           (''feature_importance'', PyDict imp)], w\<lparr>stdout := stdout w\<rparr>)"
      using Pair Inr w1 by (simp add: load_model_metrics_def io_defs)
    thus ?thesis by blast
  qed
qed

lemma load_model_metrics_try_world: "snd (load_model_metrics_try L w) = w"
  by (auto simp: load_model_metrics_try_def joblib_load_def io_defs split: option.splits sum.splits)

lemma load_model_metrics_except:
  assumes "fst (load_model_metrics_try L w) = Inl e"
  shows "load_model_metrics L w =
       (Inr [(''best_model'', PyStr ''XGBoost''), (''accuracy'', PyFloat 97.6),
           (''feature_importance'', PyDict 
                [(''batting_strength'', PyFloat 0.35),
                 (''bowling_strength'', PyFloat 0.25),
                 (''consistency'', PyFloat 0.15),
                 (''historical_win_rate'', PyFloat 0.10),
                 (''head_to_head_win_rate'', PyFloat 0.10),
                 (''venue_win_rate'', PyFloat 0.05)])],
        w\<lparr>stdout := stdout w @ [''Error loading model metrics: '' @ exn_str e]\<rparr>)"
proof -
  have "load_model_metrics_try L w = (Inl e, w)"
    using assms load_model_metrics_try_world[of L w] by (cases "load_model_metrics_try L w") simp
  thus ?thesis by (simp add: load_model_metrics_def io_defs dict_of_items_distinct)
qed


subsection \<open>The frame of the renderer\<close>

lemma chart_frame_refl: "chart_frame w w"
  by (auto simp: chart_frame_def)

lemma chart_frame_trans: "chart_frame a b \<Longrightarrow> chart_frame b c \<Longrightarrow> chart_frame a c"
  unfolding chart_frame_def by (intro conjI) (simp, simp, simp, blast, blast)

lemma chart_frame_stdout: "chart_frame w (w\<lparr>stdout := out\<rparr>)"
  by (auto simp: chart_frame_def)

lemma io_bind_frame:
  assumes "\<And>w. chart_frame w (snd (m w))" and "\<And>x w. chart_frame w (snd (f x w))"
  shows "chart_frame w (snd (io_bind m f w))"
proof (cases "m w")
  case (Pair r w1)
  hence 1: "chart_frame w w1" using assms(1)[of w] by simp
  show ?thesis
  proof (cases r)
    case (Inl e) thus ?thesis using Pair 1 by (simp add: io_bind_def)
  next
    case (Inr x)
    hence "io_bind m f w = f x w1" using Pair by (simp add: io_bind_def)
    thus ?thesis using chart_frame_trans[OF 1 assms(2)[of w1 x]] by simp
  qed
qed

lemma try_except_frame:
  assumes "\<And>w. chart_frame w (snd (m w))" and "\<And>e w. chart_frame w (snd (h e w))"
  shows "chart_frame w (snd (try_except m h w))"
proof (cases "m w")
  case (Pair r w1)
  hence 1: "chart_frame w w1" using assms(1)[of w] by simp
  show ?thesis
  proof (cases r)
    case (Inr x) thus ?thesis using Pair 1 by (simp add: try_except_def)
  next
    case (Inl e)
    hence "try_except m h w = h e w1" using Pair by (simp add: try_except_def)
    thus ?thesis using chart_frame_trans[OF 1 assms(2)[of w1 e]] by simp
  qed
qed

lemma io_of_frame: "chart_frame w (snd (io_of r w))"
  by (simp add: io_of_def chart_frame_refl)

lemma print_py_frame: "chart_frame w (snd (print_py s w))"
  by (simp add: print_py_def chart_frame_stdout)

lemma load_predictions_frame: "chart_frame w (snd (load_predictions L w))"
  using load_predictions_shape[of L w] by (auto simp: chart_frame_stdout)

lemma load_model_metrics_frame: "chart_frame w (snd (load_model_metrics L w))"
  using load_model_metrics_shape[of L w] by (auto simp: chart_frame_stdout)

lemma dirname_team_points: "dirname ''static/team_points.png'' = ''static''"
  by (simp add: dirname_def)

lemma dirname_feature_importance: "dirname ''static/feature_importance.png'' = ''static''"
  by (simp add: dirname_def)

lemma makedirs_static_frame:
  "chart_frame w (snd (if \<not> path_exists ''static'' w then makedirs ''static'' w else (Inr (), w)))"
  by (auto simp: makedirs_def chart_frame_def split: option.splits)

lemma write_team_points_frame: "chart_frame w (snd (write_file ''static/team_points.png'' b w))"
  by (auto simp: write_file_def chart_frame_def split: option.splits)

lemma write_feature_importance_frame:
  "chart_frame w (snd (write_file ''static/feature_importance.png'' b w))"
  by (auto simp: write_file_def chart_frame_def split: option.splits)

lemma generate_visualizations_try_frame:
  "chart_frame w (snd (generate_visualizations_try L w))"
  unfolding generate_visualizations_try_def
  by (intro io_bind_frame io_of_frame load_predictions_frame load_model_metrics_frame
        makedirs_static_frame write_team_points_frame write_feature_importance_frame)

lemma generate_visualizations_frame:
  "chart_frame w (snd (generate_visualizations L w))"
  unfolding generate_visualizations_def
  by (intro try_except_frame generate_visualizations_try_frame print_py_frame)

lemma generate_visualizations_returns: "fst (generate_visualizations L w) = Inr ()"
  by (cases "generate_visualizations_try L w")
     (auto simp: generate_visualizations_def try_except_def print_py_def split: sum.splits)

subsection \<open>The predictions reader\<close>

text \<open>
  Claim C1. \<open>load_predictions\<close> never raises: whatever reading the ranking file
  gives, it returns a table. When the read succeeds it returns the table read. When the
  read fails in any way, and in particular when the file is missing, it returns exactly
  the fixed table of ten teams with their result categories and points, and so does the
  Predictions API.
\<close>

theorem load_predictions_never_raises_fallback:
  "let fallback = \<lparr>columns = [''Team'', ''Result'', ''points''],
        rows = [[PyStr ''Gujarat Titans'', PyStr ''Winner'', PyInt 10],
                [PyStr ''Royal Challengers Bangalore'', PyStr ''Runner-up'', PyInt 8],
                [PyStr ''Punjab Kings'', PyStr ''Second Runner-up'', PyInt 8],
                [PyStr ''Mumbai Indians'', PyStr ''Eliminator'', PyInt 6],
                [PyStr ''Kolkata Knight Riders'', PyStr ''Other'', PyInt 6],
                [PyStr ''Rajasthan Royals'', PyStr ''Other'', PyInt 2],
                [PyStr ''Lucknow Super Giants'', PyStr ''Other'', PyInt 2],
                [PyStr ''Delhi Capitals'', PyStr ''Other'', PyInt 2],
                [PyStr ''Chennai Super Kings'', PyStr ''Other'', PyInt 0],
                [PyStr ''Sunrisers Hyderabad'', PyStr ''Other'', PyInt 0]]\<rparr>
   in (\<exists>df. fst (load_predictions L w) = Inr df) \<and>
      (\<forall>df. fst (pd_read_csv L ''data/predicted_ipl_2025_rankings.csv'' w) = Inr df
            \<longrightarrow> fst (load_predictions L w) = Inr df) \<and>
      (\<forall>e. fst (pd_read_csv L ''data/predicted_ipl_2025_rankings.csv'' w) = Inl e
            \<longrightarrow> fst (load_predictions L w) = Inr fallback \<and>
                length (rows fallback) = 10 \<and>
                fst (api_predictions L w) = Inr (Json (to_dict_records fallback))) \<and>
      (files w ''data/predicted_ipl_2025_rankings.csv'' = None
            \<longrightarrow> fst (load_predictions L w) = Inr fallback)"
proof -
  have total: "\<exists>df. fst (load_predictions L w) = Inr df"
    using load_predictions_shape[of L w] by auto
  have ok: "\<And>df. fst (pd_read_csv L ''data/predicted_ipl_2025_rankings.csv'' w) = Inr df
      \<Longrightarrow> fst (load_predictions L w) = Inr df"
    by (simp add: load_predictions_ok)
  show ?thesis
    unfolding Let_def
  proof (intro conjI allI impI)
    show "\<exists>df. fst (load_predictions L w) = Inr df" by (rule total)
  next
    fix df assume "fst (pd_read_csv L ''data/predicted_ipl_2025_rankings.csv'' w) = Inr df"
    thus "fst (load_predictions L w) = Inr df" by (rule ok)
  next
    fix e assume "fst (pd_read_csv L ''data/predicted_ipl_2025_rankings.csv'' w) = Inl e"
    from load_predictions_except[OF this]
    show "fst (load_predictions L w) = Inr \<lparr>columns = [''Team'', ''Result'', ''points''],
        rows = [[PyStr ''Gujarat Titans'', PyStr ''Winner'', PyInt 10],
                [PyStr ''Royal Challengers Bangalore'', PyStr ''Runner-up'', PyInt 8],
                [PyStr ''Punjab Kings'', PyStr ''Second Runner-up'', PyInt 8],
                [PyStr ''Mumbai Indians'', PyStr ''Eliminator'', PyInt 6],
                [PyStr ''Kolkata Knight Riders'', PyStr ''Other'', PyInt 6],
                [PyStr ''Rajasthan Royals'', PyStr ''Other'', PyInt 2],
                [PyStr ''Lucknow Super Giants'', PyStr ''Other'', PyInt 2],
                [PyStr ''Delhi Capitals'', PyStr ''Other'', PyInt 2],
                [PyStr ''Chennai Super Kings'', PyStr ''Other'', PyInt 0],
                [PyStr ''Sunrisers Hyderabad'', PyStr ''Other'', PyInt 0]]\<rparr>"
      by (simp only: fst_conv)
  next
    fix e assume "fst (pd_read_csv L ''data/predicted_ipl_2025_rankings.csv'' w) = Inl e"
    from load_predictions_except[OF this]
    show "fst (api_predictions L w) = Inr (Json (to_dict_records \<lparr>columns = [''Team'', ''Result'', ''points''],
        rows = [[PyStr ''Gujarat Titans'', PyStr ''Winner'', PyInt 10],
                [PyStr ''Royal Challengers Bangalore'', PyStr ''Runner-up'', PyInt 8],
                [PyStr ''Punjab Kings'', PyStr ''Second Runner-up'', PyInt 8],
                [PyStr ''Mumbai Indians'', PyStr ''Eliminator'', PyInt 6],
                [PyStr ''Kolkata Knight Riders'', PyStr ''Other'', PyInt 6],
                [PyStr ''Rajasthan Royals'', PyStr ''Other'', PyInt 2],
                [PyStr ''Lucknow Super Giants'', PyStr ''Other'', PyInt 2],
                [PyStr ''Delhi Capitals'', PyStr ''Other'', PyInt 2],
                [PyStr ''Chennai Super Kings'', PyStr ''Other'', PyInt 0],
                [PyStr ''Sunrisers Hyderabad'', PyStr ''Other'', PyInt 0]]\<rparr>))"
      by (simp add: api_predictions_def io_bind_def io_of_def jsonify_def)
  next
    assume "files w ''data/predicted_ipl_2025_rankings.csv'' = None"
    from load_predictions_except[OF pd_read_csv_missing[OF this], of L]
    show "fst (load_predictions L w) = Inr \<lparr>columns = [''Team'', ''Result'', ''points''],
        rows = [[PyStr ''Gujarat Titans'', PyStr ''Winner'', PyInt 10],
                [PyStr ''Royal Challengers Bangalore'', PyStr ''Runner-up'', PyInt 8],
                [PyStr ''Punjab Kings'', PyStr ''Second Runner-up'', PyInt 8],
                [PyStr ''Mumbai Indians'', PyStr ''Eliminator'', PyInt 6],
                [PyStr ''Kolkata Knight Riders'', PyStr ''Other'', PyInt 6],
                [PyStr ''Rajasthan Royals'', PyStr ''Other'', PyInt 2],
                [PyStr ''Lucknow Super Giants'', PyStr ''Other'', PyInt 2],
                [PyStr ''Delhi Capitals'', PyStr ''Other'', PyInt 2],
                [PyStr ''Chennai Super Kings'', PyStr ''Other'', PyInt 0],
                [PyStr ''Sunrisers Hyderabad'', PyStr ''Other'', PyInt 0]]\<rparr>"
      by (simp only: fst_conv)
  qed simp
qed

theorem load_predictions_never_raises_fallback_witness:
  "files world_empty ''data/predicted_ipl_2025_rankings.csv'' = None \<and>
   fst (load_predictions example_lib world_empty) = Inr \<lparr>columns = [''Team'', ''Result'', ''points''],
        rows = [[PyStr ''Gujarat Titans'', PyStr ''Winner'', PyInt 10],
                [PyStr ''Royal Challengers Bangalore'', PyStr ''Runner-up'', PyInt 8],
                [PyStr ''Punjab Kings'', PyStr ''Second Runner-up'', PyInt 8],
                [PyStr ''Mumbai Indians'', PyStr ''Eliminator'', PyInt 6],
                [PyStr ''Kolkata Knight Riders'', PyStr ''Other'', PyInt 6],
                [PyStr ''Rajasthan Royals'', PyStr ''Other'', PyInt 2],
                [PyStr ''Lucknow Super Giants'', PyStr ''Other'', PyInt 2],
                [PyStr ''Delhi Capitals'', PyStr ''Other'', PyInt 2],
                [PyStr ''Chennai Super Kings'', PyStr ''Other'', PyInt 0],
                [PyStr ''Sunrisers Hyderabad'', PyStr ''Other'', PyInt 0]]\<rparr> \<and>
   fst (pd_read_csv example_lib ''data/predicted_ipl_2025_rankings.csv'' world_good) =
     Inr \<lparr>columns = [''Team'', ''Result'', ''points''],
                 rows = [[PyStr ''Mumbai Indians'', PyStr ''Winner'', PyInt 10],
                         [PyStr ''Delhi Capitals'', PyStr ''Runner-up'', PyInt 8]]\<rparr> \<and>
   fst (load_predictions example_lib world_good) =
     Inr \<lparr>columns = [''Team'', ''Result'', ''points''],
                 rows = [[PyStr ''Mumbai Indians'', PyStr ''Winner'', PyInt 10],
                         [PyStr ''Delhi Capitals'', PyStr ''Runner-up'', PyInt 8]]\<rparr>"
proof -
  have e: "files world_empty ''data/predicted_ipl_2025_rankings.csv'' = None"
    by (simp add: world_empty_def)
  have g: "fst (pd_read_csv example_lib ''data/predicted_ipl_2025_rankings.csv'' world_good) =
     Inr \<lparr>columns = [''Team'', ''Result'', ''points''],
                 rows = [[PyStr ''Mumbai Indians'', PyStr ''Winner'', PyInt 10],
                         [PyStr ''Delhi Capitals'', PyStr ''Runner-up'', PyInt 8]]\<rparr>"
    by (simp add: pd_read_csv_def world_good_def example_lib_def)
  show ?thesis
    using e g load_predictions_never_raises_fallback[of example_lib world_empty]
      load_predictions_never_raises_fallback[of example_lib world_good]
    by (simp add: Let_def)
qed

subsection \<open>The pairing of names and importances\<close>

lemma dict_comp_zip:
  assumes "map f (take (length ks) xs) = map Inr rs"
    and "distinct (map fst acc @ ks)"
  shows "dict_comp f (zip ks xs) acc = Inr (acc @ zip ks (map PyFloat rs))"
  using assms
proof (induction ks arbitrary: xs rs acc)
  case Nil thus ?case by simp
next
  case (Cons k ks)
  show ?case
  proof (cases xs)
    case Nil
    with Cons.prems(1) have "rs = []" by simp
    with Nil show ?thesis by simp
  next
    case (Cons x xs')
    with Cons.prems(1) obtain r rs' where rs: "rs = r # rs'" by (cases rs) auto
    have fx: "f x = Inr r" and rest: "map f (take (length ks) xs') = map Inr rs'"
      using Cons.prems(1) Cons rs by auto
    have fresh: "k \<notin> fst ` set acc" using Cons.prems(2) by auto
    have up: "AList.update k (PyFloat r) acc = acc @ [(k, PyFloat r)]"
      using fresh by (rule update_fresh)
    have "dict_comp f (zip ks xs') (acc @ [(k, PyFloat r)]) =
          Inr ((acc @ [(k, PyFloat r)]) @ zip ks (map PyFloat rs'))"
      using rest Cons.prems(2) by (intro Cons.IH) auto
    thus ?thesis using Cons rs fx up by simp
  qed
qed

lemma length_features: "length features = 6"
  by (simp add: features_def)

lemma distinct_features: "distinct features"
  by (simp add: features_def)

lemma dict_comp_features:
  assumes "map f (take 6 v) = map Inr rs"
  shows "dict_comp f (zip features v) [] = Inr (zip features (map PyFloat rs))"
  using dict_comp_zip[of f features v rs "[]"] assms distinct_features
  by (simp add: length_features)

lemma load_model_metrics_try_ok:
  assumes "fst (joblib_load L ''model/best_model.pkl'' w) = Inr m"
    and "feature_importances L m = Inr v"
    and "map (float_py L) (take 6 v) = map Inr rs"
  shows "load_model_metrics_try L w =
     (Inr [(''best_model'', PyStr ''XGBoost''), (''accuracy'', PyFloat 97.6),
           (''feature_importance'', PyDict (zip features (map PyFloat rs)))], w)"
proof -
  have "joblib_load L ''model/best_model.pkl'' w = (Inr m, w)"
    using assms(1) by (auto simp: joblib_load_def split: option.splits)
  thus ?thesis
    using assms(2) dict_comp_features[OF assms(3)]
    by (simp add: load_model_metrics_try_def io_defs dict_of_items_distinct)
qed

lemma map_of_zip_nth:
  "distinct ks \<Longrightarrow> i < length ks \<Longrightarrow> i < length ys \<Longrightarrow> map_of (zip ks ys) (ks ! i) = Some (ys ! i)"
proof (induction ks arbitrary: ys i)
  case Nil thus ?case by simp
next
  case (Cons k ks)
  then obtain y ys' where ys: "ys = y # ys'" by (cases ys) auto
  show ?case
  proof (cases i)
    case 0 thus ?thesis using ys by simp
  next
    case (Suc j)
    hence "ks ! j \<noteq> k" using Cons.prems by auto
    thus ?thesis using Suc ys Cons by auto
  qed
qed

text \<open>
  Claim C3. On the success path of \<open>load_model_metrics\<close> (the artifact loads, its
  importances \<open>v\<close> can be read, and \<open>float()\<close> succeeds on the elements that are paired),
  the returned \<open>feature_importance\<close> maps the feature name at position \<open>i\<close> to
  \<open>float(v[i])\<close> for every \<open>i\<close> below the shorter of the two lengths, and has exactly
  the first \<open>min (length v) 6\<close> names as keys: the pairing truncates.
\<close>

theorem load_model_metrics_pairs_positions:
  assumes "fst (joblib_load L ''model/best_model.pkl'' w) = Inr m"
    and "feature_importances L m = Inr v"
    and "map (float_py L) (take 6 v) = map Inr rs"
  shows "\<exists>imp. fst (load_model_metrics L w) =
            Inr [(''best_model'', PyStr ''XGBoost''), (''accuracy'', PyFloat 97.6),
                 (''feature_importance'', PyDict imp)] \<and>
          map fst imp = take (min (length v) 6) features \<and>
          (\<forall>i < min (length v) 6.
              float_py L (v ! i) = Inr (rs ! i) \<and>
              map_of imp (features ! i) = Some (PyFloat (rs ! i)))"
proof -
  let ?imp = "zip features (map PyFloat rs)"
  have len: "length rs = min (length v) 6"
    using arg_cong[OF assms(3), of length] by simp
  have 1: "fst (load_model_metrics L w) =
            Inr [(''best_model'', PyStr ''XGBoost''), (''accuracy'', PyFloat 97.6),
                 (''feature_importance'', PyDict ?imp)]"
    using load_model_metrics_try_ok[OF assms]
    by (simp add: load_model_metrics_def try_except_def)
  have 2: "map fst ?imp = take (min (length v) 6) features"
    using len by (simp add: map_fst_zip_take length_features min.commute)
  have 3: "float_py L (v ! i) = Inr (rs ! i) \<and>
           map_of ?imp (features ! i) = Some (PyFloat (rs ! i))" if "i < min (length v) 6" for i
  proof
    have "map (float_py L) (take 6 v) ! i = map Inr rs ! i" using assms(3) by simp
    thus "float_py L (v ! i) = Inr (rs ! i)" using that len by simp
    show "map_of ?imp (features ! i) = Some (PyFloat (rs ! i))"
      using map_of_zip_nth[OF distinct_features, of i "map PyFloat rs"] that len
      by (simp add: length_features)
  qed
  show ?thesis using 1 2 3 by blast
qed

theorem load_model_metrics_pairs_positions_witness:
  "fst (joblib_load example_lib ''model/best_model.pkl'' world_short_model) = Inr [0.7, 0.3] \<and>
   (\<exists>imp. fst (load_model_metrics example_lib world_short_model) =
            Inr [(''best_model'', PyStr ''XGBoost''), (''accuracy'', PyFloat 97.6),
                 (''feature_importance'', PyDict imp)] \<and>
          map fst imp = [''batting_strength'', ''bowling_strength''] \<and>
          map_of imp ''batting_strength'' = Some (PyFloat 0.7) \<and>
          map_of imp ''bowling_strength'' = Some (PyFloat 0.3))"
proof -
  have a: "fst (joblib_load example_lib ''model/best_model.pkl'' world_short_model) = Inr [0.7, 0.3]"
    by (simp add: joblib_load_def world_short_model_def example_lib_def)
  have b: "feature_importances example_lib [0.7, 0.3] = Inr [0.7, 0.3]"
    by (simp add: example_lib_def)
  have c: "map (float_py example_lib) (take 6 [0.7, 0.3]) = map Inr [0.7, 0.3]"
    by (simp add: example_lib_def)
  from load_model_metrics_pairs_positions[OF a b c]
  obtain imp where
    1: "fst (load_model_metrics example_lib world_short_model) =
            Inr [(''best_model'', PyStr ''XGBoost''), (''accuracy'', PyFloat 97.6),
                 (''feature_importance'', PyDict imp)]"
    and 2: "map fst imp = take (min (length [0.7, 0.3::real]) 6) features"
    and 3: "\<forall>i < min (length [0.7, 0.3::real]) 6.
              map_of imp (features ! i) = Some (PyFloat ([0.7, 0.3] ! i))"
    by blast
  have k: "map fst imp = [''batting_strength'', ''bowling_strength'']"
    using 2 by (simp add: features_def)
  have "map_of imp (features ! 0) = Some (PyFloat ([0.7, 0.3] ! 0))"
    using 3 by simp
  hence x: "map_of imp ''batting_strength'' = Some (PyFloat 0.7)" by (simp add: features_def)
  have "map_of imp (features ! 1) = Some (PyFloat ([0.7, 0.3] ! 1))"
    using 3 by simp
  hence y: "map_of imp ''bowling_strength'' = Some (PyFloat 0.3)" by (simp add: features_def)
  show ?thesis
    by (rule conjI[OF a]) (rule exI[of _ imp], intro conjI 1 k x y)
qed

subsection \<open>The fallback of the metrics reader\<close>

lemma load_model_metrics_try_missing:
  "files w ''model/best_model.pkl'' = None \<Longrightarrow>
   fst (load_model_metrics_try L w) = Inl (FileNotFoundError ''model/best_model.pkl'')"
  by (simp add: load_model_metrics_try_def joblib_load_def io_defs)

lemma load_model_metrics_try_unreadable:
  "files w ''model/best_model.pkl'' = Some c \<Longrightarrow> unpickle L c = Inl e \<Longrightarrow>
   fst (load_model_metrics_try L w) = Inl e"
  by (simp add: load_model_metrics_try_def joblib_load_def io_defs)

lemma load_model_metrics_try_incompatible:
  "files w ''model/best_model.pkl'' = Some c \<Longrightarrow> unpickle L c = Inr m \<Longrightarrow>
   feature_importances L m = Inl e \<Longrightarrow> fst (load_model_metrics_try L w) = Inl e"
  by (simp add: load_model_metrics_try_def joblib_load_def io_defs)

lemma api_metrics_fst:
  "fst (load_model_metrics L w) = Inr m \<Longrightarrow> fst (api_metrics L w) = Inr (Json (PyDict m))"
  by (cases "load_model_metrics L w") (simp add: api_metrics_def io_bind_def io_of_def jsonify_def)

text \<open>
  Claim C2. \<open>load_model_metrics\<close> never raises. Whenever its \<open>try\<close> block fails (the
  artifact is missing, joblib cannot read it, the loaded object has no usable
  \<open>feature_importances_\<close>, or anything else), it returns the fixed record: best_model
  "XGBoost", accuracy 97.60 and the six fixed importances; the Metrics API then returns
  that record.
\<close>

theorem load_model_metrics_never_raises_fallback:
  "let fallback =
         [(''best_model'', PyStr ''XGBoost''), (''accuracy'', PyFloat 97.60),
          (''feature_importance'', PyDict
             [(''batting_strength'', PyFloat 0.35),
              (''bowling_strength'', PyFloat 0.25),
              (''consistency'', PyFloat 0.15),
              (''historical_win_rate'', PyFloat 0.10),
              (''head_to_head_win_rate'', PyFloat 0.10),
              (''venue_win_rate'', PyFloat 0.05)])]
   in (\<exists>m. fst (load_model_metrics L w) = Inr m) \<and>
      (\<forall>e. fst (load_model_metrics_try L w) = Inl e \<longrightarrow>
            fst (load_model_metrics L w) = Inr fallback \<and>
            fst (api_metrics L w) = Inr (Json (PyDict fallback))) \<and>
      (files w ''model/best_model.pkl'' = None \<longrightarrow>
            fst (load_model_metrics L w) = Inr fallback) \<and>
      (\<forall>c e. files w ''model/best_model.pkl'' = Some c \<and> unpickle L c = Inl e \<longrightarrow>
            fst (load_model_metrics L w) = Inr fallback) \<and>
      (\<forall>c m e. files w ''model/best_model.pkl'' = Some c \<and> unpickle L c = Inr m \<and>
            feature_importances L m = Inl e \<longrightarrow>
            fst (load_model_metrics L w) = Inr fallback)"
proof -
  define fallback where "fallback =
         [(''best_model'', PyStr ''XGBoost''), (''accuracy'', PyFloat 97.60),
          (''feature_importance'', PyDict
             [(''batting_strength'', PyFloat 0.35),
              (''bowling_strength'', PyFloat 0.25),
              (''consistency'', PyFloat 0.15),
              (''historical_win_rate'', PyFloat 0.10),
              (''head_to_head_win_rate'', PyFloat 0.10),
              (''venue_win_rate'', PyFloat 0.05)])]"
  have total: "\<exists>m. fst (load_model_metrics L w) = Inr m"
    using load_model_metrics_shape[of L w] by auto
  have exc: "fst (load_model_metrics L w) = Inr fallback"
    if "fst (load_model_metrics_try L w) = Inl e" for e
    using load_model_metrics_except[OF that] by (simp add: fallback_def)
  have api: "fst (api_metrics L w) = Inr (Json (PyDict fallback))"
    if "fst (load_model_metrics_try L w) = Inl e" for e
    using exc[OF that] by (rule api_metrics_fst)
  have missing: "fst (load_model_metrics L w) = Inr fallback"
    if "files w ''model/best_model.pkl'' = None"
    using exc[OF load_model_metrics_try_missing[OF that]] .
  have unreadable: "fst (load_model_metrics L w) = Inr fallback"
    if "files w ''model/best_model.pkl'' = Some c \<and> unpickle L c = Inl e" for c e
    using exc[OF load_model_metrics_try_unreadable[of w c L e]] that by simp
  have incompatible: "fst (load_model_metrics L w) = Inr fallback"
    if "files w ''model/best_model.pkl'' = Some c \<and> unpickle L c = Inr m \<and>
        feature_importances L m = Inl e" for c m e
    using exc[OF load_model_metrics_try_incompatible[of w c L m e]] that by simp
  have "(\<exists>m. fst (load_model_metrics L w) = Inr m) \<and>
      (\<forall>e. fst (load_model_metrics_try L w) = Inl e \<longrightarrow>
            fst (load_model_metrics L w) = Inr fallback \<and>
            fst (api_metrics L w) = Inr (Json (PyDict fallback))) \<and>
      (files w ''model/best_model.pkl'' = None \<longrightarrow>
            fst (load_model_metrics L w) = Inr fallback) \<and>
      (\<forall>c e. files w ''model/best_model.pkl'' = Some c \<and> unpickle L c = Inl e \<longrightarrow>
            fst (load_model_metrics L w) = Inr fallback) \<and>
      (\<forall>c m e. files w ''model/best_model.pkl'' = Some c \<and> unpickle L c = Inr m \<and>
            feature_importances L m = Inl e \<longrightarrow>
            fst (load_model_metrics L w) = Inr fallback)"
    using total exc api missing unreadable incompatible by (intro conjI allI impI)
  thus ?thesis unfolding Let_def fallback_def .
qed

theorem load_model_metrics_never_raises_fallback_witness:
  "files world_empty ''model/best_model.pkl'' = None \<and>
   fst (load_model_metrics example_lib world_empty) =
     Inr [(''best_model'', PyStr ''XGBoost''), (''accuracy'', PyFloat 97.60),
          (''feature_importance'', PyDict
             [(''batting_strength'', PyFloat 0.35),
              (''bowling_strength'', PyFloat 0.25),
              (''consistency'', PyFloat 0.15),
              (''historical_win_rate'', PyFloat 0.10),
              (''head_to_head_win_rate'', PyFloat 0.10),
              (''venue_win_rate'', PyFloat 0.05)])]"
proof -
  have e: "files world_empty ''model/best_model.pkl'' = None"
    by (simp add: world_empty_def)
  show ?thesis
    using e load_model_metrics_never_raises_fallback[of example_lib world_empty]
    by (simp add: Let_def)
qed

text \<open>
  Claim C6. Whether \<open>load_model_metrics\<close> succeeded or fell back, the Metrics API
  answers with a JSON object whose keys are exactly best_model, accuracy and
  feature_importance.
\<close>

theorem api_metrics_keys:
  "\<exists>d. fst (api_metrics L w) = Inr (Json (PyDict d)) \<and>
       map fst d = [''best_model'', ''accuracy'', ''feature_importance''] \<and>
       set (map fst d) = {''best_model'', ''accuracy'', ''feature_importance''}"
proof -
  obtain imp out where m: "load_model_metrics L w =
     (Inr [(''best_model'', PyStr ''XGBoost''), (''accuracy'', PyFloat 97.6),
           (''feature_importance'', PyDict imp)], w\<lparr>stdout := out\<rparr>)"
    using load_model_metrics_shape[of L w] by blast
  let ?d = "[(''best_model'', PyStr ''XGBoost''), (''accuracy'', PyFloat 97.6),
           (''feature_importance'', PyDict imp)]"
  have "fst (api_metrics L w) = Inr (Json (PyDict ?d))"
    using m by (intro api_metrics_fst) simp
  moreover have "map fst ?d = [''best_model'', ''accuracy'', ''feature_importance'']" by simp
  moreover have "set (map fst ?d) = {''best_model'', ''accuracy'', ''feature_importance''}" by simp
  ultimately show ?thesis by (intro exI[of _ ?d] conjI)
qed

subsection \<open>The Predictions API and the dashboard's first four\<close>

lemma api_predictions_fst:
  "fst (load_predictions L w) = Inr df \<Longrightarrow>
   fst (api_predictions L w) = Inr (Json (to_dict_records df))"
  by (cases "load_predictions L w") (simp add: api_predictions_def io_bind_def io_of_def jsonify_def)






subsection \<open>The dashboard handler\<close>

lemma to_dict_records_iloc:
  "to_dict_records df = PyList recs \<Longrightarrow> to_dict_records (iloc_upto n df) = PyList (take n recs)"
  by (auto simp: to_dict_records_def iloc_upto_def take_map)

lemma chart_frame_csv:
  "chart_frame w w' \<Longrightarrow>
   files w' ''data/predicted_ipl_2025_rankings.csv'' = files w ''data/predicted_ipl_2025_rankings.csv''"
  by (simp add: chart_frame_def)

lemma chart_frame_model:
  "chart_frame w w' \<Longrightarrow> files w' ''model/best_model.pkl'' = files w ''model/best_model.pkl''"
  by (simp add: chart_frame_def)

lemma index_args_result:
  "\<exists>df imp w'. fst (load_predictions L w) = Inr df \<and>
     index_args L w =
       (Inr [(''predictions'', to_dict_records df),
             (''top_teams'', to_dict_records (iloc_upto 4 df)),
             (''model_metrics'', PyDict [(''name'', PyStr ''XGBoost''), (''accuracy'', PyFloat 97.6)]),
             (''feature_importance'', PyDict imp)], w') \<and>
     chart_frame w w'"
proof -
  obtain w1 where g: "generate_visualizations L w = (Inr (), w1)"
    using generate_visualizations_returns[of L w] by (cases "generate_visualizations L w") auto
  have f1: "chart_frame w w1" using generate_visualizations_frame[of w L] g by simp
  obtain df out where p: "load_predictions L w1 = (Inr df, w1\<lparr>stdout := out\<rparr>)"
    using load_predictions_shape[of L w1] by blast
  have "fst (load_predictions L w1) = fst (load_predictions L w)"
    using chart_frame_csv[OF f1] by (rule load_predictions_fst_cong)
  hence df: "fst (load_predictions L w) = Inr df" using p by simp
  obtain imp out2 where m: "load_model_metrics L (w1\<lparr>stdout := out\<rparr>) =
     (Inr [(''best_model'', PyStr ''XGBoost''), (''accuracy'', PyFloat 97.6),
           (''feature_importance'', PyDict imp)], w1\<lparr>stdout := out, stdout := out2\<rparr>)"
    using load_model_metrics_shape[of L "w1\<lparr>stdout := out\<rparr>"] by blast
  have f2: "chart_frame w (w1\<lparr>stdout := out, stdout := out2\<rparr>)"
    using f1 by (auto simp: chart_frame_def)
  have "index_args L w =
       (Inr [(''predictions'', to_dict_records df),
             (''top_teams'', to_dict_records (iloc_upto 4 df)),
             (''model_metrics'', PyDict [(''name'', PyStr ''XGBoost''), (''accuracy'', PyFloat 97.6)]),
             (''feature_importance'', PyDict imp)], w1\<lparr>stdout := out, stdout := out2\<rparr>)"
    using g p m
    by (simp add: index_args_def io_bind_def io_of_def io_return_def getitem_def Let_def
          dict_of_items_distinct)
  thus ?thesis using df f2 by blast
qed

lemma index_fst:
  "fst (index_args L w) = Inr args \<Longrightarrow>
   fst (index L w) = (case render_template L ''index.html'' args of
                        Inl e \<Rightarrow> Inl e | Inr page \<Rightarrow> Inr (Html page))"
  by (cases "index_args L w")
     (simp add: index_def io_bind_def io_of_def io_return_def split: sum.splits)


text \<open>
  Claim C4. For every state of the ranking file, the \<open>top_teams\<close> the dashboard handler
  hands to its template are the first four of the records the Predictions API returns
  in that state.
\<close>

theorem index_top_teams_first_four:
  "\<exists>recs args. fst (api_predictions L w) = Inr (Json (PyList recs)) \<and>
      fst (index_args L w) = Inr args \<and>
      map_of args ''top_teams'' = Some (PyList (take 4 recs)) \<and>
      map_of args ''predictions'' = Some (PyList recs)"
proof -
  obtain df imp w' where df: "fst (load_predictions L w) = Inr df"
    and a: "index_args L w =
       (Inr [(''predictions'', to_dict_records df),
             (''top_teams'', to_dict_records (iloc_upto 4 df)),
             (''model_metrics'', PyDict [(''name'', PyStr ''XGBoost''), (''accuracy'', PyFloat 97.6)]),
             (''feature_importance'', PyDict imp)], w')"
    using index_args_result[of L w] by blast
  obtain recs where r: "to_dict_records df = PyList recs" by (simp add: to_dict_records_def)
  have 1: "fst (api_predictions L w) = Inr (Json (PyList recs))"
    using api_predictions_fst[OF df] r by simp
  let ?args = "[(''predictions'', to_dict_records df),
             (''top_teams'', to_dict_records (iloc_upto 4 df)),
             (''model_metrics'', PyDict [(''name'', PyStr ''XGBoost''), (''accuracy'', PyFloat 97.6)]),
             (''feature_importance'', PyDict imp)]"
  have 2: "fst (index_args L w) = Inr ?args" using a by simp
  have 3: "map_of ?args ''top_teams'' = Some (PyList (take 4 recs))"
    using to_dict_records_iloc[OF r, of 4] by simp
  have 4: "map_of ?args ''predictions'' = Some (PyList recs)"
    using r by simp
  show ?thesis by (intro exI[of _ recs] exI[of _ ?args] conjI 1 2 3 4)
qed

text \<open>
  Claim C7. \<open>generate_visualizations\<close> never raises: whatever fails inside its
  \<open>try\<close> block is caught. So the dashboard handler always goes on to load its data and
  reaches \<open>render_template('index.html', ...)\<close>, whose outcome is its response.
\<close>

theorem generate_visualizations_never_raises:
  "fst (generate_visualizations L w) = Inr () \<and>
   (\<exists>args. fst (index_args L w) = Inr args \<and>
      fst (index L w) = (case render_template L ''index.html'' args of
                           Inl e \<Rightarrow> Inl e | Inr page \<Rightarrow> Inr (Html page)))"
proof -
  obtain args where a: "fst (index_args L w) = Inr args"
    using index_args_result[of L w] by auto
  show ?thesis
    by (rule conjI[OF generate_visualizations_returns]) (rule exI[of _ args], intro conjI a index_fst[OF a])
qed

subsection \<open>When the renderer succeeds\<close>











subsection \<open>Runs on the concrete environments\<close>

lemmas run_defs =
  generate_visualizations_try_def load_predictions_def load_model_metrics_def
  load_model_metrics_try_def pd_read_csv_def joblib_load_def write_file_def makedirs_def
  path_exists_def getitem_def io_defs example_lib_def dirname_def palette_def
  dict_of_items_distinct features_def


lemma try_other_table:
  "fst (generate_visualizations_try example_lib world_other_table) =
     Inl (ValueError ''Could not interpret value Team for x'')"
  by (simp add: run_defs world_other_table_def)


lemma try_stale_charts:
  "fst (generate_visualizations_try example_lib world_stale_charts) =
     Inl (ValueError ''Could not interpret value Team for x'')"
  by (simp add: run_defs world_stale_charts_def)




subsection \<open>When the renderer fails\<close>







theorem generate_visualizations_never_raises_witness:
  "fst (generate_visualizations_try example_lib world_other_table) =
     Inl (ValueError ''Could not interpret value Team for x'') \<and>
   fst (generate_visualizations example_lib world_other_table) = Inr () \<and>
   fst (index example_lib world_other_table) = Inr (Html ''index.html'')"
proof -
  from generate_visualizations_never_raises[of example_lib world_other_table]
  obtain args where g: "fst (generate_visualizations example_lib world_other_table) = Inr ()"
    and i: "fst (index example_lib world_other_table) =
       (case render_template example_lib ''index.html'' args of
          Inl e \<Rightarrow> Inl e | Inr page \<Rightarrow> Inr (Html page))"
    by blast
  have "fst (index example_lib world_other_table) = Inr (Html ''index.html'')"
    using i by (simp add: example_lib_def)
  thus ?thesis using try_other_table g by simp
qed

subsection \<open>The chart files after a dashboard request\<close>




subsection \<open>Which handler touches the file system\<close>








subsection \<open>The order of the fallback table\<close>

text \<open>
  Claim C10. The fallback table that \<open>load_predictions\<close> returns when the read fails is
  sorted: its points column is 10, 8, 8, 6, 6, 2, 2, 2, 0, 0, which never increases, and
  its first four rows carry the results Winner, Runner-up, Second Runner-up, Eliminator
  in that order. The dashboard's \<open>top_teams\<close> on fallback data are those four rows.
\<close>

theorem fallback_ranking_sorted:
  assumes "fst (pd_read_csv L ''data/predicted_ipl_2025_rankings.csv'' w) = Inl e"
  shows "\<exists>df args. fst (load_predictions L w) = Inr df \<and>
     map (\<lambda>r. r ! 2) (rows df) = map PyInt [10, 8, 8, 6, 6, 2, 2, 2, 0, 0] \<and>
     sorted_wrt (\<lambda>a b. b \<le> a) [10, 8, 8, 6, 6, 2, 2, 2, 0, 0 :: int] \<and>
     map (\<lambda>r. r ! 1) (rows (iloc_upto 4 df)) =
       map PyStr [''Winner'', ''Runner-up'', ''Second Runner-up'', ''Eliminator''] \<and>
     fst (index_args L w) = Inr args \<and>
     map_of args ''top_teams'' = Some (PyList
       [PyDict [(''Team'', PyStr ''Gujarat Titans''), (''Result'', PyStr ''Winner''),
                (''points'', PyInt 10)],
        PyDict [(''Team'', PyStr ''Royal Challengers Bangalore''), (''Result'', PyStr ''Runner-up''),
                (''points'', PyInt 8)],
        PyDict [(''Team'', PyStr ''Punjab Kings''), (''Result'', PyStr ''Second Runner-up''),
                (''points'', PyInt 8)],
        PyDict [(''Team'', PyStr ''Mumbai Indians''), (''Result'', PyStr ''Eliminator''),
                (''points'', PyInt 6)]])"
proof -
  define fb where "fb = \<lparr>columns = [''Team'', ''Result'', ''points''],
        rows = [[PyStr ''Gujarat Titans'', PyStr ''Winner'', PyInt 10],
                [PyStr ''Royal Challengers Bangalore'', PyStr ''Runner-up'', PyInt 8],
                [PyStr ''Punjab Kings'', PyStr ''Second Runner-up'', PyInt 8],
                [PyStr ''Mumbai Indians'', PyStr ''Eliminator'', PyInt 6],
                [PyStr ''Kolkata Knight Riders'', PyStr ''Other'', PyInt 6],
                [PyStr ''Rajasthan Royals'', PyStr ''Other'', PyInt 2],
                [PyStr ''Lucknow Super Giants'', PyStr ''Other'', PyInt 2],
                [PyStr ''Delhi Capitals'', PyStr ''Other'', PyInt 2],
                [PyStr ''Chennai Super Kings'', PyStr ''Other'', PyInt 0],
                [PyStr ''Sunrisers Hyderabad'', PyStr ''Other'', PyInt 0]]\<rparr>"
  have 1: "fst (load_predictions L w) = Inr fb"
    using load_predictions_except[OF assms] by (simp add: fb_def)
  obtain df imp w' where df: "fst (load_predictions L w) = Inr df"
    and a: "index_args L w =
       (Inr [(''predictions'', to_dict_records df),
             (''top_teams'', to_dict_records (iloc_upto 4 df)),
             (''model_metrics'', PyDict [(''name'', PyStr ''XGBoost''), (''accuracy'', PyFloat 97.6)]),
             (''feature_importance'', PyDict imp)], w')"
    using index_args_result[of L w] by blast
  have eq: "df = fb" using df 1 by simp
  let ?args = "[(''predictions'', to_dict_records fb),
             (''top_teams'', to_dict_records (iloc_upto 4 fb)),
             (''model_metrics'', PyDict [(''name'', PyStr ''XGBoost''), (''accuracy'', PyFloat 97.6)]),
             (''feature_importance'', PyDict imp)]"
  have 2: "map (\<lambda>r. r ! 2) (rows fb) = map PyInt [10, 8, 8, 6, 6, 2, 2, 2, 0, 0]"
    by (simp add: fb_def)
  have 3: "sorted_wrt (\<lambda>a b. b \<le> a) [10, 8, 8, 6, 6, 2, 2, 2, 0, 0 :: int]"
    by simp
  have 4: "map (\<lambda>r. r ! 1) (rows (iloc_upto 4 fb)) =
       map PyStr [''Winner'', ''Runner-up'', ''Second Runner-up'', ''Eliminator'']"
    by (simp add: fb_def iloc_upto_def)
  have 5: "fst (index_args L w) = Inr ?args" using a eq by simp
  have 6: "map_of ?args ''top_teams'' = Some (PyList
       [PyDict [(''Team'', PyStr ''Gujarat Titans''), (''Result'', PyStr ''Winner''),
                (''points'', PyInt 10)],
        PyDict [(''Team'', PyStr ''Royal Challengers Bangalore''), (''Result'', PyStr ''Runner-up''),
                (''points'', PyInt 8)],
        PyDict [(''Team'', PyStr ''Punjab Kings''), (''Result'', PyStr ''Second Runner-up''),
                (''points'', PyInt 8)],
        PyDict [(''Team'', PyStr ''Mumbai Indians''), (''Result'', PyStr ''Eliminator''),
                (''points'', PyInt 6)]])"
    by (simp add: fb_def iloc_upto_def to_dict_records_def dict_of_items_distinct)
  show ?thesis by (intro exI[of _ fb] exI[of _ ?args] conjI 1 2 3 4 5 6)
qed

theorem fallback_ranking_sorted_witness:
  "fst (pd_read_csv example_lib ''data/predicted_ipl_2025_rankings.csv'' world_empty) =
     Inl (FileNotFoundError ''data/predicted_ipl_2025_rankings.csv'') \<and>
   (\<exists>df. fst (load_predictions example_lib world_empty) = Inr df \<and>
     map (\<lambda>r. r ! 2) (rows df) = map PyInt [10, 8, 8, 6, 6, 2, 2, 2, 0, 0] \<and>
     map (\<lambda>r. r ! 1) (rows (iloc_upto 4 df)) =
       map PyStr [''Winner'', ''Runner-up'', ''Second Runner-up'', ''Eliminator''])"
proof -
  have m: "fst (pd_read_csv example_lib ''data/predicted_ipl_2025_rankings.csv'' world_empty) =
     Inl (FileNotFoundError ''data/predicted_ipl_2025_rankings.csv'')"
    by (simp add: pd_read_csv_def world_empty_def)
  from fallback_ranking_sorted[OF m] obtain df where
    "fst (load_predictions example_lib world_empty) = Inr df"
    "map (\<lambda>r. r ! 2) (rows df) = map PyInt [10, 8, 8, 6, 6, 2, 2, 2, 0, 0]"
    "map (\<lambda>r. r ! 1) (rows (iloc_upto 4 df)) =
       map PyStr [''Winner'', ''Runner-up'', ''Second Runner-up'', ''Eliminator'']"
    by (elim exE conjE)
  thus ?thesis by (intro conjI m exI[of _ df])
qed

end
